theory Spec2Isabelle
  imports Main
begin

section \<open>JavaScript values\<close>

text \<open>
  A JavaScript string is a sequence of UTF-16 code units. The messages of the scan engine
  contain Polish letters outside ASCII (U+0107, U+0142, U+0105), so a string is modelled as
  the list of its code units, and an ASCII literal is lifted with \<open>ascii\<close>.
\<close>

type_synonym jsstring = "nat list"

definition ascii :: "string \<Rightarrow> jsstring" where
  "ascii cs = map of_char cs"

text \<open>\<^verbatim>\<open>String.prototype.includes\<close>: the argument occurs as a contiguous run of code units.\<close>

fun starts_with :: "jsstring \<Rightarrow> jsstring \<Rightarrow> bool" where
  "starts_with s [] = True"
| "starts_with [] (c # t) = False"
| "starts_with (d # s) (c # t) = (d = c \<and> starts_with s t)"

fun js_includes :: "jsstring \<Rightarrow> jsstring \<Rightarrow> bool" where
  "js_includes [] t = (t = [])"
| "js_includes (d # s) t = (starts_with (d # s) t \<or> js_includes s t)"

text \<open>
  The conversion a template literal applies to an integral number: decimal digits, with a
  leading minus sign for a negative value.
\<close>

fun nat_digits :: "nat \<Rightarrow> jsstring" where
  "nat_digits n = (if n < 10 then [48 + n] else nat_digits (n div 10) @ [48 + n mod 10])"

declare nat_digits.simps [simp del]

definition number_to_string :: "int \<Rightarrow> jsstring" where
  "number_to_string i = (if i < 0 then 45 # nat_digits (nat (- i)) else nat_digits (nat i))"

section \<open>The backend call\<close>

text \<open>
  Modelled from the spec: the response of \<^verbatim>\<open>qrScanAPI.processScan(qrData, user.id)\<close>, whose
  code is not among the sources. The dashboard awaits the call, and its result is an input of
  the model: either the promise resolves with a response object of the shape
  \<^verbatim>\<open>{success, action?, employee_name?, time?, message, cooldown_seconds?}\<close>, or it rejects
  (a transport fault). The fields are the ones the handler reads; \<^verbatim>\<open>message\<close> is always a
  string, an absent optional field is \<open>None\<close>, and a duration is a whole number of seconds.
\<close>

record response =
  success :: bool
  action :: "jsstring option"
  employee_name :: "jsstring option"
  time :: "jsstring option"
  message :: jsstring
  cooldown_seconds :: "int option"

datatype reply = Resolved response | Thrown

text \<open>A submission handed to the backend: the decoded payload and the acting user's id.\<close>

type_synonym submission = "jsstring \<times> nat"

section \<open>UserDashboard\<close>

text \<open>
  The object passed to \<^verbatim>\<open>setScanResult\<close>. The handler builds four different object
  literals; a field a literal does not mention is \<open>None\<close> (\<^verbatim>\<open>undefined\<close>).
\<close>

record scan_result =
  sr_success :: bool
  sr_action :: "jsstring option"
  sr_employee :: "jsstring option"
  sr_time :: "jsstring option"
  sr_message :: jsstring
  sr_cooldown_seconds :: "int option"
  isUnauthorized :: "bool option"
  isCooldown :: "bool option"

text \<open>
  The component's state: the four \<^verbatim>\<open>useState\<close> cells the scan logic uses, and
  \<open>interval\<close>, which tells whether the \<^verbatim>\<open>setInterval\<close> of the cooldown effect is live
  (set by the effect, cleared by its cleanup). \<open>dashboard_init\<close> is the state after the
  mount, when the effect has run once on the counter 0.
\<close>

record dashboard =
  scanResult :: "scan_result option"
  loading :: bool
  cooldownTimer :: int
  isCooldownActive :: bool
  interval :: bool

definition dashboard_init :: dashboard where
  "dashboard_init =
     \<lparr>scanResult = None, loading = False, cooldownTimer = 0,
      isCooldownActive = False, interval = False\<rparr>"

subsection \<open>The cooldown effect and its one-second tick\<close>

text \<open>
  \<^verbatim>\<open>useEffect(..., [cooldownTimer])\<close>: the cleanup of the previous run clears the interval,
  then the body marks the cooldown active and installs a new interval when the counter is
  positive, and marks it inactive otherwise.
\<close>

definition cooldown_effect :: "dashboard \<Rightarrow> dashboard" where
  "cooldown_effect s =
     (if cooldownTimer s > 0
      then s\<lparr>isCooldownActive := True, interval := True\<rparr>
      else s\<lparr>isCooldownActive := False, interval := False\<rparr>)"

text \<open>
  After an event handler has run, React renders the new state and runs the effect again
  only when its dependency \<^verbatim>\<open>cooldownTimer\<close> differs from the previous render's.
\<close>

definition rerender :: "dashboard \<Rightarrow> dashboard \<Rightarrow> dashboard" where
  "rerender prev s = (if cooldownTimer s \<noteq> cooldownTimer prev then cooldown_effect s else s)"

text \<open>
  The interval callback:
  \<^verbatim>\<open>setCooldownTimer(timer => { if (timer <= 1) { setIsCooldownActive(false); return 0; }
  return timer - 1; })\<close>. It runs only while the interval is live.
\<close>

definition tick_update :: "dashboard \<Rightarrow> dashboard" where
  "tick_update s =
     (if cooldownTimer s \<le> 1
      then s\<lparr>isCooldownActive := False, cooldownTimer := 0\<rparr>
      else s\<lparr>cooldownTimer := cooldownTimer s - 1\<rparr>)"

definition tick :: "dashboard \<Rightarrow> dashboard" where
  "tick s = (if interval s then rerender s (tick_update s) else s)"

fun ticks :: "nat \<Rightarrow> dashboard \<Rightarrow> dashboard" where
  "ticks 0 s = s"
| "ticks (Suc k) s = ticks k (tick s)"

subsection \<open>handleQRScan\<close>

text \<open>The three message literals of the handler.\<close>

definition poczekac :: jsstring where
  "poczekac = ascii ''poczeka'' @ [263]"

definition cooldown_message :: "int \<Rightarrow> jsstring" where
  "cooldown_message t =
     ascii ''Musisz poczeka'' @ [263] @ ascii '' '' @ number_to_string t
       @ ascii '' sekund przed kolejnym skanowaniem''"

definition server_error_message :: jsstring where
  "server_error_message =
     ascii ''B'' @ [322, 261] @ ascii ''d po'' @ [322, 261] @ ascii ''czenia z serwerem''"

text \<open>
  \<^verbatim>\<open>handleQRScan\<close> is an async function. \<open>handleQRScan_call\<close> is its synchronous part, up
  to the \<^verbatim>\<open>await\<close>: it returns the submission it hands to \<^verbatim>\<open>processScan\<close>, if any.
  The function is a closure: \<^verbatim>\<open>isCooldownActive\<close> and \<^verbatim>\<open>cooldownTimer\<close> are the
  constants of the render that created it (\<open>rnd\<close>), while the setters act on the current
  state (\<open>s\<close>). \<open>uid\<close> is \<^verbatim>\<open>user.id\<close>.
\<close>

definition handleQRScan_call ::
  "nat \<Rightarrow> dashboard \<Rightarrow> jsstring \<Rightarrow> dashboard \<Rightarrow> submission option \<times> dashboard" where
  "handleQRScan_call uid rnd qrData s =
     (if isCooldownActive rnd
      then (None,
            s\<lparr>scanResult := Some
                \<lparr>sr_success = False, sr_action = None, sr_employee = None, sr_time = None,
                 sr_message = cooldown_message (cooldownTimer rnd),
                 sr_cooldown_seconds = None, isUnauthorized = None,
                 isCooldown = Some True\<rparr>\<rparr>)
      else (Some (qrData, uid), s\<lparr>loading := True, scanResult := None\<rparr>))"

text \<open>
  \<^verbatim>\<open>if (result.cooldown_seconds) { setCooldownTimer(result.cooldown_seconds); }\<close>, which
  both response branches end with. The test passes when the field is present and not zero.
\<close>

definition arm_cooldown :: "int option \<Rightarrow> dashboard \<Rightarrow> dashboard" where
  "arm_cooldown v s =
     (case v of
        None \<Rightarrow> s
      | Some n \<Rightarrow> if n \<noteq> 0 then s\<lparr>cooldownTimer := n\<rparr> else s)"

text \<open>
  \<open>handleQRScan_settle\<close> is the rest of the handler, resumed with the outcome of the
  awaited call: the success branch, the failure branch, the \<^verbatim>\<open>catch\<close> branch, and the
  final \<^verbatim>\<open>setLoading(false)\<close>.
\<close>

definition handleQRScan_settle :: "reply \<Rightarrow> dashboard \<Rightarrow> dashboard" where
  "handleQRScan_settle rep s =
     (case rep of
        Resolved result \<Rightarrow>
          (if success result
           then arm_cooldown (cooldown_seconds result)
                  (s\<lparr>scanResult := Some
                      \<lparr>sr_success = True, sr_action = action result,
                       sr_employee = employee_name result, sr_time = time result,
                       sr_message = message result,
                       sr_cooldown_seconds = cooldown_seconds result,
                       isUnauthorized = None, isCooldown = None\<rparr>\<rparr>)
           else arm_cooldown (cooldown_seconds result)
                  (s\<lparr>scanResult := Some
                      \<lparr>sr_success = False, sr_action = None, sr_employee = None,
                       sr_time = None, sr_message = message result,
                       sr_cooldown_seconds = None,
                       isUnauthorized = Some (\<not> js_includes (message result) poczekac),
                       isCooldown = Some (js_includes (message result) poczekac)\<rparr>\<rparr>))
      | Thrown \<Rightarrow>
          s\<lparr>scanResult := Some
              \<lparr>sr_success = False, sr_action = None, sr_employee = None, sr_time = None,
               sr_message = server_error_message, sr_cooldown_seconds = None,
               isUnauthorized = None, isCooldown = None\<rparr>\<rparr>)
     \<lparr>loading := False\<rparr>"

text \<open>
  How the result panel tells the outcomes apart (the \<^verbatim>\<open>className\<close> chain of the render):
  \<^verbatim>\<open>success\<close> first, then \<^verbatim>\<open>isCooldown\<close>, then \<^verbatim>\<open>isUnauthorized\<close>, else a plain error.
\<close>

datatype outcome_kind = Accepted | RejectedCooldown | RejectedUnauthorized | RejectedServerError

definition outcome_of :: "scan_result \<Rightarrow> outcome_kind" where
  "outcome_of r =
     (if sr_success r then Accepted
      else if isCooldown r = Some True then RejectedCooldown
      else if isUnauthorized r = Some True then RejectedUnauthorized
      else RejectedServerError)"

text \<open>The \<^verbatim>\<open>disabled\<close> prop the dashboard passes to the scanner: \<^verbatim>\<open>loading || isCooldownActive\<close>.\<close>

definition scanner_disabled :: "dashboard \<Rightarrow> bool" where
  "scanner_disabled s = (loading s \<or> isCooldownActive s)"

text \<open>
  A run of decode events, each handed to the handler of the latest render, with the
  render and the effect between two events. The submissions issued are collected.
\<close>

fun scans :: "nat \<Rightarrow> jsstring list \<Rightarrow> dashboard \<Rightarrow> submission list \<times> dashboard" where
  "scans uid [] s = ([], s)"
| "scans uid (q # qs) s =
     (let (sub, s1) = handleQRScan_call uid s q s;
          (subs, s2) = scans uid qs (rerender s s1)
      in ((case sub of None \<Rightarrow> [] | Some x \<Rightarrow> [x]) @ subs, s2))"

text \<open>
  A settled state: the effect has run for the current counter, so the active flag and the
  interval both say whether the counter is positive.
\<close>

definition settled :: "dashboard \<Rightarrow> bool" where
  "settled s = (isCooldownActive s = (cooldownTimer s > 0) \<and> interval s = (cooldownTimer s > 0))"

section \<open>QRScanner\<close>

text \<open>
  The repository holds two interchangeable scanner components with the same props
  (\<^verbatim>\<open>onScan\<close>, \<^verbatim>\<open>loading\<close>, \<^verbatim>\<open>disabled\<close>) and the same three state cells. One opens the
  camera with \<^verbatim>\<open>getUserMedia\<close> and decodes on a click (prefix \<open>demo_\<close>); the other wraps
  the \<^verbatim>\<open>qr-scanner\<close> library (prefix \<open>lib_\<close>).
\<close>

datatype facing = Environment | UserFacing

definition flip :: "facing \<Rightarrow> facing" where
  "flip f = (if f = Environment then UserFacing else Environment)"

record scanner_state =
  isScanning :: bool
  error :: "jsstring option"
  facingMode :: facing

subsection \<open>The click-to-scan component\<close>

text \<open>\<open>streamRef\<close> holds the open media stream, tagged with the facing it was asked for.\<close>

record demo_scanner = scanner_state +
  streamRef :: "facing option"

definition demo_init :: demo_scanner where
  "demo_init = \<lparr>isScanning = False, error = None, facingMode = Environment, streamRef = None\<rparr>"

definition camera_error :: jsstring where
  "camera_error =
     ascii ''Nie mo'' @ [380] @ ascii ''na uzyska'' @ [263] @ ascii '' dost'' @ [281]
       @ ascii ''pu do kamery''"

text \<open>
  \<^verbatim>\<open>startScanning\<close>: \<open>fm\<close> is the \<^verbatim>\<open>facingMode\<close> of the render that created the
  function, \<open>granted\<close> tells whether \<^verbatim>\<open>getUserMedia\<close> resolves. The video element is
  mounted by the render that follows \<^verbatim>\<open>setIsScanning(true)\<close>, so the stream is stored.
\<close>

definition demo_startScanning :: "facing \<Rightarrow> bool \<Rightarrow> demo_scanner \<Rightarrow> demo_scanner" where
  "demo_startScanning fm granted s =
     (if granted
      then s\<lparr>error := None, isScanning := True, streamRef := Some fm\<rparr>
      else s\<lparr>error := Some camera_error, isScanning := False\<rparr>)"

text \<open>\<^verbatim>\<open>stopScanning\<close>: stop the tracks of the held stream and drop it; then clear the flag.\<close>

definition demo_stopScanning :: "demo_scanner \<Rightarrow> demo_scanner" where
  "demo_stopScanning s =
     (if streamRef s \<noteq> None then s\<lparr>streamRef := None\<rparr> else s)\<lparr>isScanning := False\<rparr>"

text \<open>\<^verbatim>\<open>toggleCamera\<close>: \<^verbatim>\<open>stopScanning()\<close>, then \<^verbatim>\<open>setFacingMode\<close> of the other facing.\<close>

definition demo_toggleCamera :: "demo_scanner \<Rightarrow> demo_scanner" where
  "demo_toggleCamera s = (demo_stopScanning s)\<lparr>facingMode := flip (facingMode s)\<rparr>"

text \<open>
  \<^verbatim>\<open>useEffect(() => { if (isScanning && facingMode) startScanning(); }, [facingMode])\<close>,
  run after the render of the state it reads; the facing mode is a non-empty string.
\<close>

definition demo_facing_effect :: "bool \<Rightarrow> demo_scanner \<Rightarrow> demo_scanner" where
  "demo_facing_effect granted s =
     (if isScanning s then demo_startScanning (facingMode s) granted s else s)"

text \<open>The switch-camera command: the click handler, the render, the effect.\<close>

definition demo_switchCamera :: "bool \<Rightarrow> demo_scanner \<Rightarrow> demo_scanner" where
  "demo_switchCamera granted s =
     (let s1 = demo_toggleCamera s
      in if facingMode s1 \<noteq> facingMode s then demo_facing_effect granted s1 else s1)"

definition mockQRCodes :: "jsstring list" where
  "mockQRCodes = [ascii ''QR-EMP-001'', ascii ''QR-EMP-002'', ascii ''QR-INVALID-001'']"

subsection \<open>The component built on the qr-scanner library\<close>

text \<open>
  The \<^verbatim>\<open>QrScanner\<close> object \<^verbatim>\<open>startScanning\<close> constructs. Its decode callback is a closure
  made inside \<^verbatim>\<open>startScanning\<close>: \<open>cb_disabled\<close> and \<open>cb_onScan\<close> are the \<^verbatim>\<open>disabled\<close> and
  \<^verbatim>\<open>onScan\<close> props of the render that created that \<^verbatim>\<open>startScanning\<close>. The handler
  \<^verbatim>\<open>onScan\<close> is given by the dashboard render it closes over. \<open>running\<close> tells whether
  \<^verbatim>\<open>start()\<close> resolved.
\<close>

record qr_instance =
  cb_disabled :: bool
  cb_onScan :: dashboard
  preferredCamera :: facing
  running :: bool

record lib_scanner = scanner_state +
  qrScannerRef :: "qr_instance option"

definition lib_init :: lib_scanner where
  "lib_init = \<lparr>isScanning = False, error = None, facingMode = Environment, qrScannerRef = None\<rparr>"

definition camera_error_lib :: jsstring where
  "camera_error_lib =
     camera_error @ ascii ''. Sprawd'' @ [378] @ ascii '' uprawnienia.''"

definition switch_error :: jsstring where
  "switch_error =
     ascii ''Nie mo'' @ [380] @ ascii ''na prze'' @ [322, 261] @ ascii ''czy'' @ [263]
       @ ascii '' kamery''"

text \<open>
  \<^verbatim>\<open>startScanning\<close>: \<open>dis\<close>, \<open>h\<close> and \<open>fm\<close> are the \<^verbatim>\<open>disabled\<close>, \<^verbatim>\<open>onScan\<close> and
  \<^verbatim>\<open>facingMode\<close> of the render that created the function; \<open>ok\<close> tells whether
  \<^verbatim>\<open>qrScanner.start()\<close> resolves. A scanner already in the ref is destroyed and replaced.
\<close>

definition lib_startScanning ::
  "bool \<Rightarrow> dashboard \<Rightarrow> facing \<Rightarrow> bool \<Rightarrow> lib_scanner \<Rightarrow> lib_scanner" where
  "lib_startScanning dis h fm ok s =
     (let s1 = s\<lparr>error := None, isScanning := True,
                 qrScannerRef := Some \<lparr>cb_disabled = dis, cb_onScan = h,
                                       preferredCamera = fm, running = ok\<rparr>\<rparr>
      in if ok then s1 else s1\<lparr>error := Some camera_error_lib, isScanning := False\<rparr>)"

definition lib_stopScanning :: "lib_scanner \<Rightarrow> lib_scanner" where
  "lib_stopScanning s =
     (if qrScannerRef s \<noteq> None then s\<lparr>qrScannerRef := None\<rparr> else s)\<lparr>isScanning := False\<rparr>"

definition lib_facing_effect ::
  "bool \<Rightarrow> dashboard \<Rightarrow> bool \<Rightarrow> lib_scanner \<Rightarrow> lib_scanner" where
  "lib_facing_effect dis h ok s =
     (if isScanning s then lib_startScanning dis h (facingMode s) ok s else s)"

text \<open>
  The switch-camera command. \<^verbatim>\<open>toggleCamera\<close> sets the other facing and, when a scanner is
  in the ref, awaits its \<^verbatim>\<open>setCamera\<close> (\<open>cam_ok\<close>: whether that resolves); the render
  and the \<^verbatim>\<open>[facingMode]\<close> effect come before the awaited call settles, and a rejection
  sets the error text.
\<close>

definition lib_switchCamera ::
  "bool \<Rightarrow> dashboard \<Rightarrow> bool \<Rightarrow> bool \<Rightarrow> lib_scanner \<Rightarrow> lib_scanner" where
  "lib_switchCamera dis h cam_ok ok s =
     (let s1 = s\<lparr>facingMode := flip (facingMode s)\<rparr>;
          s2 = (if facingMode s1 \<noteq> facingMode s then lib_facing_effect dis h ok s1 else s1)
      in if qrScannerRef s \<noteq> None \<and> \<not> cam_ok then s2\<lparr>error := Some switch_error\<rparr> else s2)"

section \<open>The dashboard together with a scanner\<close>

text \<open>
  \<open>pending\<close> lists the \<^verbatim>\<open>processScan\<close> calls that have been issued and have not settled.
  Every handler run is followed by the render and the cooldown effect.
\<close>

definition submit ::
  "nat \<Rightarrow> dashboard \<Rightarrow> jsstring \<Rightarrow> dashboard \<times> submission list \<Rightarrow> dashboard \<times> submission list" where
  "submit uid h qrData dp =
     (let (sub, d1) = handleQRScan_call uid h qrData (fst dp)
      in (rerender (fst dp) d1, snd dp @ (case sub of None \<Rightarrow> [] | Some x \<Rightarrow> [x])))"

definition settle :: "reply \<Rightarrow> dashboard \<times> submission list \<Rightarrow> dashboard \<times> submission list" where
  "settle rep dp =
     (case snd dp of
        [] \<Rightarrow> dp
      | p # ps \<Rightarrow> (rerender (fst dp) (handleQRScan_settle rep (fst dp)), ps))"

subsection \<open>With the click-to-scan component\<close>

record demo_system =
  d_dash :: dashboard
  d_scanner :: demo_scanner
  d_pending :: "submission list"

datatype demo_event =
    DStartStop bool
  | DToggle bool
  | DVideoClick nat
  | DRespond reply
  | DTick

text \<open>
  The start/stop button and the camera button carry \<^verbatim>\<open>disabled={disabled}\<close>; the camera
  button and the video element exist only while \<^verbatim>\<open>isScanning\<close>. \<^verbatim>\<open>handleVideoClick\<close>
  is re-created by every render, so it reads the current \<^verbatim>\<open>loading\<close> and \<^verbatim>\<open>onScan\<close>;
  the number of a \<open>DVideoClick\<close> is its random draw.
\<close>

definition demo_step :: "nat \<Rightarrow> demo_system \<Rightarrow> demo_event \<Rightarrow> demo_system" where
  "demo_step uid sys ev =
     (case ev of
        DStartStop granted \<Rightarrow>
          if scanner_disabled (d_dash sys) then sys
          else if isScanning (d_scanner sys)
          then sys\<lparr>d_scanner := demo_stopScanning (d_scanner sys)\<rparr>
          else sys\<lparr>d_scanner :=
                 demo_startScanning (facingMode (d_scanner sys)) granted (d_scanner sys)\<rparr>
      | DToggle granted \<Rightarrow>
          if isScanning (d_scanner sys) \<and> \<not> scanner_disabled (d_dash sys)
          then sys\<lparr>d_scanner := demo_switchCamera granted (d_scanner sys)\<rparr>
          else sys
      | DVideoClick i \<Rightarrow>
          if isScanning (d_scanner sys) \<and> \<not> loading (d_dash sys)
          then (let (d, p) = submit uid (d_dash sys) (mockQRCodes ! (i mod 3))
                               (d_dash sys, d_pending sys)
                in sys\<lparr>d_dash := d, d_pending := p\<rparr>)
          else sys
      | DRespond rep \<Rightarrow>
          (let (d, p) = settle rep (d_dash sys, d_pending sys)
           in sys\<lparr>d_dash := d, d_pending := p\<rparr>)
      | DTick \<Rightarrow> sys\<lparr>d_dash := tick (d_dash sys)\<rparr>)"

definition demo_start :: demo_system where
  "demo_start = \<lparr>d_dash = dashboard_init, d_scanner = demo_init, d_pending = []\<rparr>"

subsection \<open>With the qr-scanner component\<close>

record lib_system =
  l_dash :: dashboard
  l_scanner :: lib_scanner
  l_pending :: "submission list"

datatype lib_event =
    LStartStop bool
  | LToggle bool bool
  | LDecode jsstring
  | LRespond reply
  | LTick

text \<open>
  A decode event is delivered by the scanner object in the ref, to the callback that
  object was constructed with:
  \<^verbatim>\<open>if (result && result.data && !disabled) { onScan(result.data); }\<close>.
\<close>

definition lib_step :: "nat \<Rightarrow> lib_system \<Rightarrow> lib_event \<Rightarrow> lib_system" where
  "lib_step uid sys ev =
     (case ev of
        LStartStop ok \<Rightarrow>
          if scanner_disabled (l_dash sys) then sys
          else if isScanning (l_scanner sys)
          then sys\<lparr>l_scanner := lib_stopScanning (l_scanner sys)\<rparr>
          else sys\<lparr>l_scanner :=
                 lib_startScanning (scanner_disabled (l_dash sys)) (l_dash sys)
                   (facingMode (l_scanner sys)) ok (l_scanner sys)\<rparr>
      | LToggle cam_ok ok \<Rightarrow>
          if isScanning (l_scanner sys) \<and> \<not> scanner_disabled (l_dash sys)
          then sys\<lparr>l_scanner :=
                 lib_switchCamera (scanner_disabled (l_dash sys)) (l_dash sys) cam_ok ok
                   (l_scanner sys)\<rparr>
          else sys
      | LDecode qrData \<Rightarrow>
          (case qrScannerRef (l_scanner sys) of
             None \<Rightarrow> sys
           | Some q \<Rightarrow>
               if running q \<and> qrData \<noteq> [] \<and> \<not> cb_disabled q
               then (let (d, p) = submit uid (cb_onScan q) qrData (l_dash sys, l_pending sys)
                     in sys\<lparr>l_dash := d, l_pending := p\<rparr>)
               else sys)
      | LRespond rep \<Rightarrow>
          (let (d, p) = settle rep (l_dash sys, l_pending sys)
           in sys\<lparr>l_dash := d, l_pending := p\<rparr>)
      | LTick \<Rightarrow> sys\<lparr>l_dash := tick (l_dash sys)\<rparr>)"

definition lib_start :: lib_system where
  "lib_start = \<lparr>l_dash = dashboard_init, l_scanner = lib_init, l_pending = []\<rparr>"

subsection \<open>Single flight\<close>

text \<open>At most one call is pending, and the loading flag is set exactly while one is.\<close>

definition single_flight :: "demo_system \<Rightarrow> bool" where
  "single_flight sys =
     (length (d_pending sys) \<le> 1 \<and> loading (d_dash sys) = (d_pending sys \<noteq> []))"

section \<open>Sample states and responses\<close>

definition cooling_down :: dashboard where
  "cooling_down =
     \<lparr>scanResult = None, loading = False, cooldownTimer = 3,
      isCooldownActive = True, interval = True\<rparr>"

definition last_second :: dashboard where
  "last_second =
     \<lparr>scanResult = None, loading = False, cooldownTimer = 1,
      isCooldownActive = True, interval = True\<rparr>"

definition accepted_5 :: response where
  "accepted_5 =
     \<lparr>success = True, action = Some (ascii ''check_in''),
      employee_name = Some (ascii ''Jan Kowalski''), time = Some (ascii ''08:00''),
      message = ascii ''OK'', cooldown_seconds = Some 5\<rparr>"

definition accepted_0 :: response where
  "accepted_0 =
     \<lparr>success = True, action = Some (ascii ''check_out''),
      employee_name = Some (ascii ''Anna Nowak''), time = Some (ascii ''16:00''),
      message = ascii ''OK'', cooldown_seconds = Some 0\<rparr>"

definition wait_reply :: response where
  "wait_reply =
     \<lparr>success = False, action = None, employee_name = None, time = None,
      message = ascii ''Musisz poczeka'' @ [263] @ ascii '' 4 sekund'',
      cooldown_seconds = Some 4\<rparr>"

definition foreign_reply :: response where
  "foreign_reply =
     \<lparr>success = False, action = None, employee_name = None, time = None,
      message = ascii ''Kod QR nie nale'' @ [380] @ ascii ''y do Twojej firmy'',
      cooldown_seconds = None\<rparr>"

definition demo_capturing :: demo_scanner where
  "demo_capturing =
     \<lparr>isScanning = True, error = None, facingMode = Environment,
      streamRef = Some Environment\<rparr>"

definition lib_capturing :: lib_scanner where
  "lib_capturing =
     \<lparr>isScanning = True, error = None, facingMode = Environment,
      qrScannerRef = Some \<lparr>cb_disabled = False, cb_onScan = dashboard_init,
                            preferredCamera = Environment, running = True\<rparr>\<rparr>"

definition demo_cooling :: demo_system where
  "demo_cooling = \<lparr>d_dash = cooling_down, d_scanner = demo_capturing, d_pending = []\<rparr>"

section \<open>Properties\<close>

subsection \<open>Rendering and the handler's two branches\<close>

lemma loading_rerender [simp]: "loading (rerender p s) = loading s"
  by (simp add: rerender_def cooldown_effect_def)

lemma scanResult_rerender [simp]: "scanResult (rerender p s) = scanResult s"
  by (simp add: rerender_def cooldown_effect_def)

lemma cooldownTimer_rerender [simp]: "cooldownTimer (rerender p s) = cooldownTimer s"
  by (simp add: rerender_def cooldown_effect_def)

lemma rerender_same_timer: "cooldownTimer s = cooldownTimer p \<Longrightarrow> rerender p s = s"
  by (simp add: rerender_def)

lemma loading_tick [simp]: "loading (tick s) = loading s"
  by (simp add: tick_def tick_update_def)

lemma call_blocked:
  "isCooldownActive rnd \<Longrightarrow>
   handleQRScan_call uid rnd q s =
     (None, s\<lparr>scanResult := Some
                \<lparr>sr_success = False, sr_action = None, sr_employee = None, sr_time = None,
                 sr_message = cooldown_message (cooldownTimer rnd),
                 sr_cooldown_seconds = None, isUnauthorized = None,
                 isCooldown = Some True\<rparr>\<rparr>)"
  by (simp add: handleQRScan_call_def)

lemma call_issued:
  "\<not> isCooldownActive rnd \<Longrightarrow>
   handleQRScan_call uid rnd q s = (Some (q, uid), s\<lparr>loading := True, scanResult := None\<rparr>)"
  by (simp add: handleQRScan_call_def)

lemma scans_blocked: "isCooldownActive s \<Longrightarrow> fst (scans uid qs s) = []"
proof (induction qs arbitrary: s)
  case Nil
  show ?case by simp
next
  case (Cons q qs)
  let ?s1 = "snd (handleQRScan_call uid s q s)"
  have t: "cooldownTimer ?s1 = cooldownTimer s" and a: "isCooldownActive ?s1"
    using Cons.prems by (simp_all add: call_blocked)
  have "rerender s ?s1 = ?s1" using t by (rule rerender_same_timer)
  then have "isCooldownActive (rerender s ?s1)" using a by simp
  then have "fst (scans uid qs (rerender s ?s1)) = []" by (rule Cons.IH)
  then show ?case using Cons.prems
    by (simp add: call_blocked split: prod.splits)
qed

lemma demo_click_blocked:
  "isCooldownActive (d_dash sys) \<Longrightarrow>
   d_pending (demo_step uid sys (DVideoClick i)) = d_pending sys"
  by (simp add: demo_step_def submit_def call_blocked)

subsection \<open>No submission during a cooldown\<close>

text \<open>
  The handler itself is right about the flag it reads: called from a render whose
  \<^verbatim>\<open>isCooldownActive\<close> is set (\<open>rnd\<close>), it sends no request and shows a cooldown rejection
  whose message carries the remaining seconds, and it issues a request only when that flag
  is clear. The third part is about any run of decode events that each reach the handler
  of the latest render; the fourth is the click-to-scan component in front of the
  dashboard, which always calls the latest handler.
\<close>

lemma cooldown_blocks_submission:
  "(isCooldownActive rnd \<longrightarrow>
      fst (handleQRScan_call uid rnd qrData s) = None
      \<and> (\<exists>r. scanResult (snd (handleQRScan_call uid rnd qrData s)) = Some r
             \<and> outcome_of r = RejectedCooldown
             \<and> sr_message r = cooldown_message (cooldownTimer rnd)))
   \<and> (fst (handleQRScan_call uid rnd qrData s) \<noteq> None \<longrightarrow> \<not> isCooldownActive rnd)
   \<and> (isCooldownActive s \<longrightarrow> fst (scans uid qs s) = [])
   \<and> (isCooldownActive (d_dash sys) \<longrightarrow>
        d_pending (demo_step uid sys (DVideoClick i)) = d_pending sys)"
proof (intro conjI impI)
  assume "isCooldownActive rnd"
  then show "fst (handleQRScan_call uid rnd qrData s) = None"
    by (simp add: call_blocked)
next
  assume "isCooldownActive rnd"
  then show "\<exists>r. scanResult (snd (handleQRScan_call uid rnd qrData s)) = Some r
             \<and> outcome_of r = RejectedCooldown
             \<and> sr_message r = cooldown_message (cooldownTimer rnd)"
    by (simp add: call_blocked outcome_of_def)
next
  assume "fst (handleQRScan_call uid rnd qrData s) \<noteq> None"
  then show "\<not> isCooldownActive rnd"
    by (auto simp: call_blocked)
next
  assume "isCooldownActive s"
  then show "fst (scans uid qs s) = []" by (rule scans_blocked)
next
  assume "isCooldownActive (d_dash sys)"
  then show "d_pending (demo_step uid sys (DVideoClick i)) = d_pending sys"
    by (rule demo_click_blocked)
qed

lemma cooldown_blocks_submission_witness:
  "isCooldownActive cooling_down
   \<and> fst (handleQRScan_call 3 cooling_down (ascii ''QR-EMP-001'') cooling_down) = None
   \<and> map_option sr_message
       (scanResult (snd (handleQRScan_call 3 cooling_down (ascii ''QR-EMP-001'') cooling_down)))
     = Some (ascii ''Musisz poczeka'' @ [263] @ ascii '' 3 sekund przed kolejnym skanowaniem'')
   \<and> fst (scans 3 [ascii ''QR-EMP-001'', ascii ''QR-EMP-002''] cooling_down) = []
   \<and> fst (handleQRScan_call 3 dashboard_init (ascii ''QR-EMP-001'') dashboard_init) \<noteq> None
   \<and> \<not> isCooldownActive dashboard_init
   \<and> isCooldownActive (d_dash demo_cooling)
   \<and> d_pending (demo_step 3 demo_cooling (DVideoClick 0)) = []"
  using cooldown_blocks_submission [of cooling_down 3 "ascii ''QR-EMP-001''" cooling_down
      "[ascii ''QR-EMP-001'', ascii ''QR-EMP-002'']" demo_cooling 0]
    cooldown_blocks_submission [of dashboard_init 3 "ascii ''QR-EMP-001''" dashboard_init "[]"]
  by (auto simp: cooling_down_def dashboard_init_def handleQRScan_call_def cooldown_message_def
      number_to_string_def nat_digits.simps ascii_def demo_cooling_def)

text \<open>
  C1: a decode event delivered while the cooldown is active sends no request to the backend
  and shows a cooldown rejection instead; a submission is issued only when the cooldown is
  inactive. With the qr-scanner component this fails. The scanner is started while nothing
  is loading and no cooldown runs; one decode event is submitted and accepted with a
  cooldown of 5 seconds, so the cooldown is active, nothing is loading and no call is
  pending. The next decode event still goes to the callback made at the start, which calls
  the handler of that old render: its \<^verbatim>\<open>isCooldownActive\<close> is false, so the payload is
  submitted, the displayed result is cleared, and no cooldown rejection is shown, while
  the cooldown stays active with 5 seconds left.
\<close>

theorem stale_handler_submits_during_cooldown:
  "isCooldownActive (l_dash (foldl (lib_step 3) lib_start
      [LStartStop True, LDecode (ascii ''QR-EMP-001''), LRespond (Resolved accepted_5)]))
   \<and> \<not> loading (l_dash (foldl (lib_step 3) lib_start
      [LStartStop True, LDecode (ascii ''QR-EMP-001''), LRespond (Resolved accepted_5)]))
   \<and> l_pending (foldl (lib_step 3) lib_start
      [LStartStop True, LDecode (ascii ''QR-EMP-001''), LRespond (Resolved accepted_5)]) = []
   \<and> l_pending (foldl (lib_step 3) lib_start
      [LStartStop True, LDecode (ascii ''QR-EMP-001''), LRespond (Resolved accepted_5),
       LDecode (ascii ''QR-EMP-002'')]) = [(ascii ''QR-EMP-002'', 3)]
   \<and> scanResult (l_dash (foldl (lib_step 3) lib_start
      [LStartStop True, LDecode (ascii ''QR-EMP-001''), LRespond (Resolved accepted_5),
       LDecode (ascii ''QR-EMP-002'')])) = None
   \<and> isCooldownActive (l_dash (foldl (lib_step 3) lib_start
      [LStartStop True, LDecode (ascii ''QR-EMP-001''), LRespond (Resolved accepted_5),
       LDecode (ascii ''QR-EMP-002'')]))
   \<and> cooldownTimer (l_dash (foldl (lib_step 3) lib_start
      [LStartStop True, LDecode (ascii ''QR-EMP-001''), LRespond (Resolved accepted_5),
       LDecode (ascii ''QR-EMP-002'')])) = 5"
  by (simp add: lib_step_def lib_start_def lib_init_def dashboard_init_def scanner_disabled_def
      lib_startScanning_def submit_def settle_def handleQRScan_call_def handleQRScan_settle_def
      arm_cooldown_def rerender_def cooldown_effect_def accepted_5_def ascii_def)

subsection \<open>One submission at a time\<close>

text \<open>
  With the click-to-scan component the claim of C2 holds: its click handler is made anew by
  every render and tests the current \<^verbatim>\<open>loading\<close>.
\<close>

lemma demo_step_single_flight:
  assumes "single_flight sys"
  shows "single_flight (demo_step uid sys ev)"
proof (cases ev)
  case (DStartStop g)
  then show ?thesis using assms by (simp add: demo_step_def single_flight_def)
next
  case (DToggle g)
  then show ?thesis using assms by (simp add: demo_step_def single_flight_def)
next
  case (DVideoClick i)
  show ?thesis
  proof (cases "isScanning (d_scanner sys) \<and> \<not> loading (d_dash sys)")
    case True
    then have "d_pending sys = []" using assms by (simp add: single_flight_def)
    then show ?thesis using True DVideoClick
      by (cases "isCooldownActive (d_dash sys)")
        (simp_all add: demo_step_def single_flight_def submit_def call_blocked call_issued)
  next
    case False
    then show ?thesis using assms DVideoClick by (auto simp: demo_step_def)
  qed
next
  case (DRespond rep)
  show ?thesis
  proof (cases "d_pending sys")
    case Nil
    then show ?thesis using assms DRespond
      by (simp add: demo_step_def settle_def single_flight_def)
  next
    case (Cons p ps)
    then have "ps = []" using assms by (simp add: single_flight_def)
    then show ?thesis using Cons DRespond
      by (simp add: demo_step_def settle_def single_flight_def handleQRScan_settle_def)
  qed
next
  case DTick
  then show ?thesis using assms by (simp add: demo_step_def single_flight_def)
qed

lemma demo_run_single_flight:
  "single_flight sys \<Longrightarrow> single_flight (foldl (demo_step uid) sys evs)"
  by (induction evs arbitrary: sys) (simp_all add: demo_step_single_flight)

lemma demo_single_flight:
  "length (d_pending (foldl (demo_step uid) demo_start evs)) \<le> 1"
proof -
  have "single_flight demo_start"
    by (simp add: single_flight_def demo_start_def dashboard_init_def)
  then have "single_flight (foldl (demo_step uid) demo_start evs)"
    by (rule demo_run_single_flight)
  then show ?thesis by (simp add: single_flight_def)
qed

text \<open>
  C2: at most one submission is in flight; a decode event that arrives while the loading
  flag is set issues no second call. With the qr-scanner component this fails. The decode
  callback keeps the \<^verbatim>\<open>disabled\<close> and \<^verbatim>\<open>onScan\<close> of the render in which the scanner was
  started, when nothing was loading; no later render replaces it. After the start and one
  decode event the loading flag is set and one call is pending; a second decode event
  passes the stale \<^verbatim>\<open>!disabled\<close> test and issues a second call beside the first.
\<close>

theorem stale_decode_callback_two_in_flight:
  "loading (l_dash (foldl (lib_step 3) lib_start
      [LStartStop True, LDecode (ascii ''QR-EMP-001'')]))
   \<and> l_pending (foldl (lib_step 3) lib_start
      [LStartStop True, LDecode (ascii ''QR-EMP-001'')]) = [(ascii ''QR-EMP-001'', 3)]
   \<and> l_pending (foldl (lib_step 3) lib_start
      [LStartStop True, LDecode (ascii ''QR-EMP-001''), LDecode (ascii ''QR-EMP-002'')])
     = [(ascii ''QR-EMP-001'', 3), (ascii ''QR-EMP-002'', 3)]"
  by (simp add: lib_step_def lib_start_def lib_init_def dashboard_init_def scanner_disabled_def
      lib_startScanning_def submit_def handleQRScan_call_def rerender_def ascii_def)


subsection \<open>Classifying a response\<close>

lemma scanResult_arm [simp]: "scanResult (arm_cooldown v s) = scanResult s"
  by (simp add: arm_cooldown_def split: option.splits)

lemma settle_resolved_result:
  "scanResult (handleQRScan_settle (Resolved res) s) =
     Some (if success res
           then \<lparr>sr_success = True, sr_action = action res,
                 sr_employee = employee_name res, sr_time = time res,
                 sr_message = message res, sr_cooldown_seconds = cooldown_seconds res,
                 isUnauthorized = None, isCooldown = None\<rparr>
           else \<lparr>sr_success = False, sr_action = None, sr_employee = None,
                 sr_time = None, sr_message = message res, sr_cooldown_seconds = None,
                 isUnauthorized = Some (\<not> js_includes (message res) poczekac),
                 isCooldown = Some (js_includes (message res) poczekac)\<rparr>)"
  by (simp add: handleQRScan_settle_def)

text \<open>
  C3: a success response becomes an accepted outcome that carries the action, the employee
  name, the time and the message; a failure response whose message contains the wait word
  becomes a cooldown rejection, any other failure response an unauthorized rejection, and
  exactly one of the two flags is set on every failure response.
\<close>

theorem response_classification:
  "\<exists>r. scanResult (handleQRScan_settle (Resolved res) s) = Some r
     \<and> sr_message r = message res
     \<and> (if success res
        then outcome_of r = Accepted \<and> sr_action r = action res
             \<and> sr_employee r = employee_name res \<and> sr_time r = time res
        else (isCooldown r = Some True) \<noteq> (isUnauthorized r = Some True)
             \<and> outcome_of r =
                 (if js_includes (message res) poczekac
                  then RejectedCooldown else RejectedUnauthorized))"
  by (simp add: settle_resolved_result outcome_of_def)

theorem response_classification_witness:
  "map_option outcome_of (scanResult (handleQRScan_settle (Resolved accepted_5) dashboard_init))
     = Some Accepted
   \<and> map_option outcome_of (scanResult (handleQRScan_settle (Resolved wait_reply) dashboard_init))
     = Some RejectedCooldown
   \<and> map_option outcome_of
       (scanResult (handleQRScan_settle (Resolved foreign_reply) dashboard_init))
     = Some RejectedUnauthorized"
  using response_classification [of accepted_5 dashboard_init]
    response_classification [of wait_reply dashboard_init]
    response_classification [of foreign_reply dashboard_init]
  by (auto simp: accepted_5_def wait_reply_def foreign_reply_def poczekac_def ascii_def)

subsection \<open>Arming the cooldown\<close>

lemma cooldownTimer_arm:
  "cooldownTimer (arm_cooldown v s) =
     (case v of None \<Rightarrow> cooldownTimer s
      | Some n \<Rightarrow> if n \<noteq> 0 then n else cooldownTimer s)"
  by (simp add: arm_cooldown_def split: option.splits)

lemma cooldownTimer_settle_resolved:
  "cooldownTimer (handleQRScan_settle (Resolved res) s) =
     (case cooldown_seconds res of None \<Rightarrow> cooldownTimer s
      | Some n \<Rightarrow> if n \<noteq> 0 then n else cooldownTimer s)"
  by (simp add: handleQRScan_settle_def cooldownTimer_arm split: option.splits)

lemma arm_settles:
  "0 < n \<Longrightarrow> settled s \<Longrightarrow> settled (rerender s (arm_cooldown (Some n) s))"
  by (auto simp: settled_def rerender_def cooldown_effect_def arm_cooldown_def)

text \<open>
  C4: arming with \<open>n\<close> and then at once with \<open>m\<close> leaves \<open>m\<close> seconds, never \<open>n + m\<close>.
  The handler arms only with a duration that is present and not zero, so these are the
  durations the statement ranges over. It is shown for the two assignments alone, with the
  render and the effect after each, and for two responses settled one after the other.
\<close>

theorem rearm_replaces:
  assumes "n \<noteq> 0" and "m \<noteq> 0"
  shows "cooldownTimer (arm_cooldown (Some m) (arm_cooldown (Some n) s)) = m
    \<and> cooldownTimer (arm_cooldown (Some m) (arm_cooldown (Some n) s)) \<noteq> n + m
    \<and> (let s1 = rerender s (arm_cooldown (Some n) s);
            s2 = rerender s1 (arm_cooldown (Some m) s1)
        in cooldownTimer s2 = m \<and> cooldownTimer s2 \<noteq> n + m)
    \<and> (cooldown_seconds r1 = Some n \<and> cooldown_seconds r2 = Some m \<longrightarrow>
         cooldownTimer (handleQRScan_settle (Resolved r2)
           (rerender s (handleQRScan_settle (Resolved r1) s))) = m)"
  using assms
  by (simp add: cooldownTimer_arm cooldownTimer_settle_resolved Let_def)

theorem rearm_replaces_witness:
  "(5::int) \<noteq> 0 \<and> (3::int) \<noteq> 0 \<and> (4::int) \<noteq> 0
   \<and> cooldown_seconds accepted_5 = Some 5 \<and> cooldown_seconds wait_reply = Some 4
   \<and> cooldownTimer (arm_cooldown (Some 3) (arm_cooldown (Some 5) dashboard_init)) = 3
   \<and> cooldownTimer (arm_cooldown (Some 3) (arm_cooldown (Some 5) dashboard_init)) \<noteq> 8
   \<and> cooldownTimer (handleQRScan_settle (Resolved wait_reply)
        (rerender dashboard_init (handleQRScan_settle (Resolved accepted_5) dashboard_init)))
      = 4"
  using rearm_replaces [where n = 5 and m = 3 and s = dashboard_init]
    rearm_replaces [where n = 5 and m = 4 and s = dashboard_init and ?r1.0 = accepted_5
      and ?r2.0 = wait_reply]
  by (simp add: accepted_5_def wait_reply_def)

subsection \<open>Switching the camera\<close>

lemma flip_neq [simp]: "flip f \<noteq> f"
  by (cases f) (simp_all add: flip_def)

text \<open>The qr-scanner component does what C5 says, as long as the camera starts.\<close>

lemma lib_switch_camera_capturing:
  "isScanning s \<Longrightarrow>
   isScanning (lib_switchCamera dis h cam_ok True s)
   \<and> facingMode (lib_switchCamera dis h cam_ok True s) = flip (facingMode s)
   \<and> map_option preferredCamera (qrScannerRef (lib_switchCamera dis h cam_ok True s))
       = Some (flip (facingMode s))"
  by (simp add: lib_switchCamera_def lib_facing_effect_def lib_startScanning_def Let_def)

lemma lib_switch_camera_idle:
  "\<not> isScanning s \<Longrightarrow>
   \<not> isScanning (lib_switchCamera dis h cam_ok ok s)
   \<and> facingMode (lib_switchCamera dis h cam_ok ok s) = flip (facingMode s)"
  by (simp add: lib_switchCamera_def lib_facing_effect_def Let_def)

text \<open>
  C5: a camera switch while capturing re-enters capturing with the other facing; from idle
  it stays idle with the other facing. The click-to-scan component does not re-enter
  capturing: \<^verbatim>\<open>toggleCamera\<close> calls \<^verbatim>\<open>stopScanning\<close> first, so the \<^verbatim>\<open>[facingMode]\<close> effect
  that would restart the camera reads \<^verbatim>\<open>isScanning\<close> as false. Whatever the state before and
  whether or not the camera would be granted, the component ends idle with the stream
  released and the facing flipped.
\<close>

theorem demo_switch_camera_stops:
  "demo_switchCamera granted demo_capturing =
     \<lparr>isScanning = False, error = None, facingMode = UserFacing, streamRef = None\<rparr>
   \<and> \<not> isScanning (demo_switchCamera granted s)
   \<and> streamRef (demo_switchCamera granted s) = None
   \<and> facingMode (demo_switchCamera granted s) = flip (facingMode s)"
  by (simp add: demo_switchCamera_def demo_toggleCamera_def demo_stopScanning_def
      demo_facing_effect_def demo_capturing_def flip_def Let_def)


subsection \<open>A transport fault\<close>

lemma settle_thrown:
  "handleQRScan_settle Thrown s =
     s\<lparr>scanResult := Some
          \<lparr>sr_success = False, sr_action = None, sr_employee = None, sr_time = None,
           sr_message = server_error_message, sr_cooldown_seconds = None,
           isUnauthorized = None, isCooldown = None\<rparr>,
        loading := False\<rparr>"
  by (simp add: handleQRScan_settle_def)

text \<open>
  C6: when the backend call of a submission throws, the handler shows a server-error
  rejection and clears the loading flag, so the scanner is enabled again and the next
  decode event issues a submission. \<open>s0\<close> is the state in which the submission was issued,
  \<open>s1\<close> the state while it is in flight, \<open>s2\<close> the state after the \<^verbatim>\<open>catch\<close> branch.
\<close>

theorem network_fault_recovers:
  assumes "fst (handleQRScan_call uid s0 q s0) = Some sub"
  shows "let s1 = rerender s0 (snd (handleQRScan_call uid s0 q s0));
             s2 = rerender s1 (handleQRScan_settle Thrown s1)
         in loading s1
            \<and> (\<exists>r. scanResult s2 = Some r \<and> outcome_of r = RejectedServerError
                    \<and> sr_message r = server_error_message)
            \<and> \<not> loading s2 \<and> \<not> scanner_disabled s2
            \<and> cooldownTimer s2 = cooldownTimer s0
            \<and> fst (handleQRScan_call uid s2 q' s2) = Some (q', uid)"
proof -
  have inactive: "\<not> isCooldownActive s0"
    using assms by (auto simp: handleQRScan_call_def split: if_splits)
  define s1 where "s1 = rerender s0 (snd (handleQRScan_call uid s0 q s0))"
  define s2 where "s2 = rerender s1 (handleQRScan_settle Thrown s1)"
  have s1: "s1 = s0\<lparr>loading := True, scanResult := None\<rparr>"
    using inactive by (simp add: s1_def call_issued rerender_def)
  have s2: "s2 = handleQRScan_settle Thrown s1"
    by (simp add: s2_def settle_thrown rerender_def)
  have a: "loading s1" by (simp add: s1)
  have b: "\<exists>r. scanResult s2 = Some r \<and> outcome_of r = RejectedServerError
                    \<and> sr_message r = server_error_message"
    by (simp add: s2 settle_thrown outcome_of_def)
  have c: "\<not> loading s2" by (simp add: s2 settle_thrown)
  have d: "\<not> isCooldownActive s2" using inactive by (simp add: s2 settle_thrown s1)
  have e: "cooldownTimer s2 = cooldownTimer s0" by (simp add: s2 settle_thrown s1)
  have f: "fst (handleQRScan_call uid s2 q' s2) = Some (q', uid)"
    using d by (simp add: call_issued)
  show ?thesis
    unfolding Let_def s1_def [symmetric] s2_def [symmetric]
    using a b c d e f by (simp add: scanner_disabled_def)
qed

theorem network_fault_recovers_witness:
  "fst (handleQRScan_call 3 dashboard_init (ascii ''QR-EMP-001'') dashboard_init)
     = Some (ascii ''QR-EMP-001'', 3)
   \<and> (let s1 = rerender dashboard_init
                  (snd (handleQRScan_call 3 dashboard_init (ascii ''QR-EMP-001'') dashboard_init));
           s2 = rerender s1 (handleQRScan_settle Thrown s1)
       in loading s1 \<and> \<not> loading s2
          \<and> map_option outcome_of (scanResult s2) = Some RejectedServerError
          \<and> fst (handleQRScan_call 3 s2 (ascii ''QR-EMP-002'') s2)
              = Some (ascii ''QR-EMP-002'', 3))"
proof -
  have h: "fst (handleQRScan_call 3 dashboard_init (ascii ''QR-EMP-001'') dashboard_init)
     = Some (ascii ''QR-EMP-001'', 3)"
    by (simp add: handleQRScan_call_def dashboard_init_def)
  show ?thesis
    using h network_fault_recovers [OF h, of "ascii ''QR-EMP-002''"]
    by (auto simp: Let_def)
qed

subsection \<open>The countdown\<close>

lemma tick_settled:
  assumes "settled s" and "0 < cooldownTimer s"
  shows "cooldownTimer (tick s) = cooldownTimer s - 1 \<and> settled (tick s)"
  using assms
  by (auto simp: settled_def tick_def tick_update_def rerender_def cooldown_effect_def)

lemma ticks_count:
  "settled s \<Longrightarrow> cooldownTimer s = int k \<Longrightarrow> j \<le> k \<Longrightarrow>
   cooldownTimer (ticks j s) = int (k - j) \<and> settled (ticks j s)"
proof (induction j arbitrary: s k)
  case 0
  then show ?case by simp
next
  case (Suc j)
  from Suc.prems obtain k' where k: "k = Suc k'" by (cases k) auto
  have pos: "0 < cooldownTimer s" using Suc.prems k by simp
  have t: "cooldownTimer (tick s) = int k'" and st: "settled (tick s)"
    using tick_settled [OF Suc.prems(1) pos] Suc.prems(2) k by simp_all
  have "j \<le> k'" using Suc.prems(3) k by simp
  from Suc.IH [OF st t this] show ?case by (simp add: k)
qed

text \<open>
  C7: the counter is decremented once per tick while the cooldown is active; the tick that
  brings it to zero marks the cooldown inactive, with no other event, and leaves the
  counter at exactly 0. From a settled state with a positive counter \<open>n\<close> (an armed
  cooldown after its effect has run), the cooldown is active after each of the first
  \<open>n - 1\<close> ticks and the \<open>n\<close>-th tick ends it and removes the interval.
\<close>

theorem cooldown_expires:
  assumes "settled s" and "0 < cooldownTimer s"
  shows "cooldownTimer (ticks (nat (cooldownTimer s)) s) = 0
    \<and> \<not> isCooldownActive (ticks (nat (cooldownTimer s)) s)
    \<and> \<not> interval (ticks (nat (cooldownTimer s)) s)
    \<and> (\<forall>j < nat (cooldownTimer s).
          isCooldownActive (ticks j s) \<and> cooldownTimer (ticks j s) = cooldownTimer s - int j)
    \<and> (cooldownTimer s = 1 \<longrightarrow>
          cooldownTimer (tick s) = 0 \<and> \<not> isCooldownActive (tick s))"
proof -
  define k where "k = nat (cooldownTimer s)"
  have k: "cooldownTimer s = int k" using assms(2) by (simp add: k_def)
  have fin: "cooldownTimer (ticks k s) = 0 \<and> settled (ticks k s)"
    using ticks_count [OF assms(1) k, of k] by simp
  have mid: "isCooldownActive (ticks j s) \<and> cooldownTimer (ticks j s) = cooldownTimer s - int j"
    if "j < k" for j
  proof -
    have "cooldownTimer (ticks j s) = int (k - j) \<and> settled (ticks j s)"
      using ticks_count [OF assms(1) k, of j] that by simp
    then show ?thesis using that k by (auto simp: settled_def)
  qed
  have one: "cooldownTimer (tick s) = 0 \<and> \<not> isCooldownActive (tick s)"
    if "cooldownTimer s = 1"
    using tick_settled [OF assms] that by (auto simp: settled_def)
  show ?thesis
    unfolding k_def [symmetric] using fin mid one by (auto simp: settled_def)
qed

theorem cooldown_expires_witness:
  "settled cooling_down \<and> 0 < cooldownTimer cooling_down
   \<and> cooldownTimer (ticks 3 cooling_down) = 0
   \<and> \<not> isCooldownActive (ticks 3 cooling_down)
   \<and> isCooldownActive (ticks 2 cooling_down) \<and> cooldownTimer (ticks 2 cooling_down) = 1
   \<and> settled last_second \<and> cooldownTimer last_second = 1
   \<and> cooldownTimer (tick last_second) = 0 \<and> \<not> isCooldownActive (tick last_second)"
proof -
  have a: "settled cooling_down" and b: "0 < cooldownTimer cooling_down"
    by (simp_all add: settled_def cooling_down_def)
  have n: "nat (cooldownTimer cooling_down) = 3" by (simp add: cooling_down_def)
  have c: "cooldownTimer cooling_down = 3" by (simp add: cooling_down_def)
  have a': "settled last_second" and b': "0 < cooldownTimer last_second"
    and c': "cooldownTimer last_second = 1"
    by (simp_all add: settled_def last_second_def)
  have first: "cooldownTimer (ticks 3 cooling_down) = 0
   \<and> \<not> isCooldownActive (ticks 3 cooling_down)
   \<and> isCooldownActive (ticks 2 cooling_down) \<and> cooldownTimer (ticks 2 cooling_down) = 1"
    using cooldown_expires [OF a b] unfolding n using c by auto
  have second: "cooldownTimer (tick last_second) = 0 \<and> \<not> isCooldownActive (tick last_second)"
    using cooldown_expires [OF a' b'] c' by simp
  show ?thesis using a b a' c' first second by simp
qed

subsection \<open>Stopping the scanner\<close>

text \<open>
  C8: \<^verbatim>\<open>stopScanning\<close> is idempotent in both components: a second call changes nothing,
  the camera object is released and \<^verbatim>\<open>isScanning\<close> is false; on a scanner that is not
  running it changes nothing at all.
\<close>

theorem stop_idempotent:
  "demo_stopScanning (demo_stopScanning s) = demo_stopScanning s
   \<and> \<not> isScanning (demo_stopScanning s) \<and> streamRef (demo_stopScanning s) = None
   \<and> lib_stopScanning (lib_stopScanning t) = lib_stopScanning t
   \<and> \<not> isScanning (lib_stopScanning t) \<and> qrScannerRef (lib_stopScanning t) = None
   \<and> (\<not> isScanning s \<and> streamRef s = None \<longrightarrow> demo_stopScanning s = s)
   \<and> (\<not> isScanning t \<and> qrScannerRef t = None \<longrightarrow> lib_stopScanning t = t)"
  by (simp add: demo_stopScanning_def lib_stopScanning_def)

theorem stop_idempotent_witness:
  "demo_stopScanning (demo_stopScanning demo_capturing) = demo_stopScanning demo_capturing
   \<and> demo_stopScanning demo_capturing = demo_init
   \<and> \<not> isScanning demo_init \<and> streamRef demo_init = None
   \<and> demo_stopScanning demo_init = demo_init
   \<and> lib_stopScanning (lib_stopScanning lib_capturing) = lib_stopScanning lib_capturing
   \<and> lib_stopScanning lib_capturing = lib_init
   \<and> \<not> isScanning lib_init \<and> qrScannerRef lib_init = None
   \<and> lib_stopScanning lib_init = lib_init"
  using stop_idempotent [of demo_capturing lib_capturing] stop_idempotent [of demo_init lib_init]
  by (simp add: demo_capturing_def lib_capturing_def demo_init_def lib_init_def
      demo_stopScanning_def lib_stopScanning_def)

subsection \<open>A response without a cooldown\<close>

text \<open>
  C9: a response, accepted or rejected, whose \<^verbatim>\<open>cooldown_seconds\<close> is absent or 0 does not
  arm the cooldown: the active flag stays false, the counter keeps its value, and the very
  next decode event issues a submission.
\<close>

theorem no_cooldown_field_no_arm:
  assumes "\<not> isCooldownActive s"
    and "cooldown_seconds res = None \<or> cooldown_seconds res = Some 0"
  shows "let s' = rerender s (handleQRScan_settle (Resolved res) s)
         in \<not> isCooldownActive s' \<and> cooldownTimer s' = cooldownTimer s
            \<and> \<not> loading s' \<and> \<not> scanner_disabled s'
            \<and> fst (handleQRScan_call uid s' q s') = Some (q, uid)"
proof -
  define s' where "s' = rerender s (handleQRScan_settle (Resolved res) s)"
  have t: "cooldownTimer (handleQRScan_settle (Resolved res) s) = cooldownTimer s"
    using assms(2) by (auto simp: cooldownTimer_settle_resolved)
  have s': "s' = handleQRScan_settle (Resolved res) s"
    unfolding s'_def using t by (rule rerender_same_timer)
  have a: "\<not> isCooldownActive s'"
    using assms by (auto simp: s' handleQRScan_settle_def arm_cooldown_def)
  have l: "\<not> loading s'" by (simp add: s' handleQRScan_settle_def)
  have c: "fst (handleQRScan_call uid s' q s') = Some (q, uid)"
    using a by (simp add: call_issued)
  show ?thesis
    unfolding Let_def s'_def [symmetric]
    using a l c t s' by (simp add: scanner_disabled_def)
qed

theorem no_cooldown_field_no_arm_witness:
  "\<not> isCooldownActive dashboard_init
   \<and> cooldown_seconds foreign_reply = None \<and> cooldown_seconds accepted_0 = Some 0
   \<and> \<not> isCooldownActive (rerender dashboard_init
          (handleQRScan_settle (Resolved foreign_reply) dashboard_init))
   \<and> \<not> isCooldownActive (rerender dashboard_init
          (handleQRScan_settle (Resolved accepted_0) dashboard_init))
   \<and> fst (handleQRScan_call 3
            (rerender dashboard_init (handleQRScan_settle (Resolved accepted_0) dashboard_init))
            (ascii ''QR-EMP-002'')
            (rerender dashboard_init (handleQRScan_settle (Resolved accepted_0) dashboard_init)))
       = Some (ascii ''QR-EMP-002'', 3)"
proof -
  have a: "\<not> isCooldownActive dashboard_init" by (simp add: dashboard_init_def)
  have b: "cooldown_seconds foreign_reply = None" by (simp add: foreign_reply_def)
  have c: "cooldown_seconds accepted_0 = Some 0" by (simp add: accepted_0_def)
  show ?thesis
    using a b c
      no_cooldown_field_no_arm [OF a disjI1 [OF b], of 3 "ascii ''QR-EMP-002''"]
      no_cooldown_field_no_arm [OF a disjI2 [OF c], of 3 "ascii ''QR-EMP-002''"]
    by (simp add: Let_def)
qed

subsection \<open>What a local rejection leaves alone\<close>

text \<open>
  C10: a decode event rejected locally because the cooldown is active changes only the
  displayed result: the counter, the active flag, the loading flag and the interval are
  what they were, and the render that follows runs no effect.
\<close>

theorem cooldown_rejection_frame:
  assumes "isCooldownActive rnd"
  shows "snd (handleQRScan_call uid rnd qrData s) =
           s\<lparr>scanResult := scanResult (snd (handleQRScan_call uid rnd qrData s))\<rparr>
    \<and> scanResult (snd (handleQRScan_call uid rnd qrData s)) \<noteq> None
    \<and> cooldownTimer (snd (handleQRScan_call uid rnd qrData s)) = cooldownTimer s
    \<and> isCooldownActive (snd (handleQRScan_call uid rnd qrData s)) = isCooldownActive s
    \<and> loading (snd (handleQRScan_call uid rnd qrData s)) = loading s
    \<and> interval (snd (handleQRScan_call uid rnd qrData s)) = interval s
    \<and> rerender s (snd (handleQRScan_call uid rnd qrData s)) =
        snd (handleQRScan_call uid rnd qrData s)"
  using assms by (simp add: call_blocked rerender_def)

theorem cooldown_rejection_frame_witness:
  "isCooldownActive cooling_down
   \<and> cooldownTimer (snd (handleQRScan_call 3 cooling_down (ascii ''QR-EMP-001'') cooling_down)) = 3
   \<and> isCooldownActive (snd (handleQRScan_call 3 cooling_down (ascii ''QR-EMP-001'') cooling_down))
   \<and> \<not> loading (snd (handleQRScan_call 3 cooling_down (ascii ''QR-EMP-001'') cooling_down))"
proof -
  have a: "isCooldownActive cooling_down" by (simp add: cooling_down_def)
  show ?thesis
    using a cooldown_rejection_frame [OF a, of 3 "ascii ''QR-EMP-001''" cooling_down]
    by (simp add: cooling_down_def)
qed


end
